theory Spec2Isabelle
  imports Main
begin

section \<open>The output orchestration of scrape (src/scrape/scrape.py)\<close>

text \<open>
  The theory embeds the functions of \<^verbatim>\<open>scrape.py\<close> that decide how targets are
  classified, which output mode is used, how part files are created and removed, and
  what happens on failure. Python's side effects are made explicit: every effectful
  function takes the state of the outside world and returns the new one, together with
  either the value it returns (\<open>Inr\<close>) or the exception it raises (\<open>Inl\<close>).
\<close>

subsection \<open>Python string operations used by the source\<close>

text \<open>\<^verbatim>\<open>s.endswith(suf)\<close>\<close>

definition endswith :: "string \<Rightarrow> string \<Rightarrow> bool" where
  "endswith s suf = (length suf \<le> length s \<and> drop (length s - length suf) s = suf)"

text \<open>\<^verbatim>\<open>s.strip(c)\<close> for a one-character argument: all leading and trailing \<open>c\<close> go.\<close>

definition strip_chr :: "char \<Rightarrow> string \<Rightarrow> string" where
  "strip_chr c s = rev (dropWhile (\<lambda>x. x = c) (rev (dropWhile (\<lambda>x. x = c) s)))"

text \<open>\<^verbatim>\<open>s.split(c)\<close> for a one-character separator: never the empty list.\<close>

fun split_chr :: "char \<Rightarrow> string \<Rightarrow> string list" where
  "split_chr c [] = [[]]"
| "split_chr c (x # xs) =
     (if x = c then [] # split_chr c xs
      else (case split_chr c xs of
              [] \<Rightarrow> [[x]]
            | p # ps \<Rightarrow> (x # p) # ps))"

text \<open>\<^verbatim>\<open>sep.join(pieces)\<close>\<close>

fun join :: "string \<Rightarrow> string list \<Rightarrow> string" where
  "join sep [] = []"
| "join sep [p] = p"
| "join sep (p # q # ps) = p @ sep @ join sep (q # ps)"

text \<open>\<^verbatim>\<open>a in b\<close> for two strings: \<open>a\<close> occurs in \<open>b\<close> as a contiguous substring.\<close>

fun substring :: "string \<Rightarrow> string \<Rightarrow> bool" where
  "substring a [] = (a = [])"
| "substring a (y # ys) = (take (length a) (y # ys) = a \<or> substring a ys)"

text \<open>\<^verbatim>\<open>'.'.join(name.split('.')[:-1])\<close>: the name without its last extension.\<close>

definition strip_ext :: "string \<Rightarrow> string" where
  "strip_ext name = join ''.'' (butlast (split_chr CHR ''.'' name))"

text \<open>\<^verbatim>\<open>'{0}'.format(n)\<close> for a natural number.\<close>

fun str_nat :: "nat \<Rightarrow> string" where
  "str_nat n =
     (if n < 10 then [''0123456789'' ! n]
      else str_nat (n div 10) @ [''0123456789'' ! (n mod 10)])"

declare str_nat.simps [simp del]

subsection \<open>Program arguments, exceptions and the outside world\<close>

text \<open>
  The dictionary \<^verbatim>\<open>args\<close> built by the argument parser, restricted to the keys that
  \<^verbatim>\<open>scrape\<close> and the functions it calls read or assign. \<^verbatim>\<open>args['out']\<close> and
  \<^verbatim>\<open>args['crawl']\<close> are \<^verbatim>\<open>None\<close> when the option is absent.
\<close>

record args =
  arg_query :: "string list"
  arg_out :: "string list option"
  arg_files :: "string list"
  arg_urls :: "string list"
  arg_single :: bool
  arg_multiple :: bool
  arg_html :: bool
  arg_pdf :: bool
  arg_text :: bool
  arg_print :: bool
  arg_quiet :: bool
  arg_crawl :: "string list option"
  arg_crawl_all :: bool

text \<open>The truth value of \<^verbatim>\<open>args['out']\<close> and its items: \<^verbatim>\<open>None\<close> and \<^verbatim>\<open>[]\<close> are both false.\<close>

definition out_names :: "args \<Rightarrow> string list" where
  "out_names a = (case arg_out a of None \<Rightarrow> [] | Some names \<Rightarrow> names)"

text \<open>\<^verbatim>\<open>args['crawl'] or args['crawl_all']\<close>\<close>

definition crawl_requested :: "args \<Rightarrow> bool" where
  "crawl_requested a =
     ((case arg_crawl a of None \<Rightarrow> False | Some rules \<Rightarrow> rules \<noteq> []) \<or> arg_crawl_all a)"

text \<open>
  What a collaborator can raise: \<^verbatim>\<open>KeyboardInterrupt\<close>; \<^verbatim>\<open>OSError\<close>, the subclass of
  \<^verbatim>\<open>Exception\<close> that the source handles on its own; any other instance of
  \<^verbatim>\<open>Exception\<close>, by its name; and any other \<^verbatim>\<open>BaseException\<close> that is not an
  \<^verbatim>\<open>Exception\<close> (\<^verbatim>\<open>SystemExit\<close>, \<^verbatim>\<open>GeneratorExit\<close>), by its name.
\<close>

datatype exn = KeyboardInterrupt | OSError | Exception string | BaseException string

text \<open>What \<^verbatim>\<open>except (KeyboardInterrupt, Exception)\<close> matches (lines 104, 124 and 303).\<close>

fun caught :: "exn \<Rightarrow> bool" where
  "caught KeyboardInterrupt = True"
| "caught OSError = True"
| "caught (Exception name) = True"
| "caught (BaseException name) = False"

text \<open>
  The part of the outside world the orchestration reads and changes: the working
  directory, the number of part files \<^verbatim>\<open>PART1.html .. PARTn.html\<close> in each directory,
  the lines printed, the lines this module writes to standard error, and the output
  artifacts the writers produced (name and input files).
\<close>

record world =
  cwd :: string
  part_files :: "string \<Rightarrow> nat"
  stdout :: "string list"
  stderr :: "string list"
  written :: "(string \<times> string list) list"

type_synonym 'a io = "world \<Rightarrow> (exn + 'a) \<times> world"

text \<open>
  The collaborators that are not part of \<^verbatim>\<open>scrape.py\<close> (\<^verbatim>\<open>os\<close>, \<^verbatim>\<open>utils\<close>, \<^verbatim>\<open>crawl\<close>)
  answer through these parameters: what the file system, the network and the converters
  do in one run.
\<close>

record env =
  isfile :: "string \<Rightarrow> bool"
  chdir_fails :: "string \<Rightarrow> bool"
  add_url_ext :: "string \<Rightarrow> string"
  add_scheme :: "string \<Rightarrow> string"
  check_scheme :: "string \<Rightarrow> bool"
  get_domain :: "string \<Rightarrow> string"
  get_outfilename :: "string \<Rightarrow> string \<Rightarrow> string"
  get_raw_resp :: "string \<Rightarrow> string option"
  get_parsed_text :: "string \<Rightarrow> exn + string list"
  str_lower :: "string \<Rightarrow> string"
  crawl_pages :: "string \<Rightarrow> string \<Rightarrow> nat \<times> exn option"
  text_writer_error :: "string list \<Rightarrow> string \<Rightarrow> exn option"
  pdf_writer_error :: "string list \<Rightarrow> string \<Rightarrow> exn option"

subsection \<open>The file system and the collaborators\<close>

text \<open>
  \<^verbatim>\<open>s.lower()\<close>: the empty string stays empty; the lower case of any other string is
  what Python's library gives, a parameter.
\<close>

definition lower :: "env \<Rightarrow> string \<Rightarrow> string" where
  "lower env s = (if s = [] then [] else str_lower env s)"

definition getcwd :: "world \<Rightarrow> string" where
  "getcwd w = cwd w"

text \<open>\<^verbatim>\<open>os.chdir(path)\<close>: raises \<^verbatim>\<open>OSError\<close> when the directory cannot be entered.\<close>

definition chdir :: "env \<Rightarrow> string \<Rightarrow> unit io" where
  "chdir env path w =
     (if chdir_fails env path then (Inl OSError, w) else (Inr (), w\<lparr>cwd := path\<rparr>))"

text \<open>
  Modelled from the spec: \<^verbatim>\<open>utils.mkdir_and_cd\<close> is missing from the sources. Section 4.4:
  the subdirectory named after the domain is created and entered.
\<close>

definition mkdir_and_cd :: "string \<Rightarrow> world \<Rightarrow> world" where
  "mkdir_and_cd domain w = w\<lparr>cwd := cwd w @ ''/'' @ domain\<rparr>"

text \<open>
  Modelled from the spec: the PartFileStore of section 4.2 (\<^verbatim>\<open>utils.get_num_part_files\<close>,
  \<^verbatim>\<open>utils.get_part_filenames\<close>, \<^verbatim>\<open>utils.write_part_file\<close>, \<^verbatim>\<open>utils.remove_part_files\<close>
  are missing from the sources). Part files are numbered contiguously from 1 in the
  working directory; writing one page appends exactly one; removal deletes all of them
  and never fails.
\<close>

definition get_num_part_files :: "world \<Rightarrow> nat" where
  "get_num_part_files w = part_files w (cwd w)"

definition part_filename :: "nat \<Rightarrow> string" where
  "part_filename i = ''PART'' @ str_nat i @ ''.html''"

definition get_part_filenames :: "nat \<Rightarrow> nat \<Rightarrow> string list" where
  "get_part_filenames num_parts start_num = map part_filename [start_num + 1 ..< num_parts + 1]"

definition write_part_file :: "world \<Rightarrow> world" where
  "write_part_file w = w\<lparr>part_files := (part_files w)(cwd w := part_files w (cwd w) + 1)\<rparr>"

definition remove_part_files :: "world \<Rightarrow> world" where
  "remove_part_files w = w\<lparr>part_files := (part_files w)(cwd w := 0)\<rparr>"

text \<open>
  Modelled from the spec: the crawl collaborator of section 6 (\<^verbatim>\<open>crawl.py\<close> is missing
  from the sources). It writes some pages as part files and returns their names, or
  raises after the pages it managed to write.
\<close>

definition crawl :: "env \<Rightarrow> string \<Rightarrow> string \<Rightarrow> string list io" where
  "crawl env query domain w =
     (let (pages, failure) = crawl_pages env query domain;
          prev = get_num_part_files w;
          w' = w\<lparr>part_files := (part_files w)(cwd w := prev + pages)\<rparr>
      in case failure of
           Some e \<Rightarrow> (Inl e, w')
         | None \<Rightarrow> (Inr (get_part_filenames (prev + pages) prev), w'))"

text \<open>
  Modelled from the spec: the text and PDF writers of section 6 (\<^verbatim>\<open>utils.write_text_file\<close>
  and \<^verbatim>\<open>utils.write_pdf_file\<close> are missing from the sources). A writer either produces
  the artifact or signals failure by an exception.
\<close>

definition write_text_file :: "env \<Rightarrow> string list \<Rightarrow> string \<Rightarrow> unit io" where
  "write_text_file env infilenames outfilename w =
     (case text_writer_error env infilenames outfilename of
        Some e \<Rightarrow> (Inl e, w)
      | None \<Rightarrow> (Inr (), w\<lparr>written := written w @ [(outfilename, infilenames)]\<rparr>))"

definition write_pdf_file :: "env \<Rightarrow> string list \<Rightarrow> string \<Rightarrow> unit io" where
  "write_pdf_file env infilenames outfilename w =
     (case pdf_writer_error env infilenames outfilename of
        Some e \<Rightarrow> (Inl e, w)
      | None \<Rightarrow> (Inr (), w\<lparr>written := written w @ [(outfilename, infilenames)]\<rparr>))"

definition print_line :: "string \<Rightarrow> world \<Rightarrow> world" where
  "print_line s w = w\<lparr>stdout := stdout w @ [s]\<rparr>"

definition stderr_write :: "string \<Rightarrow> world \<Rightarrow> world" where
  "stderr_write s w = w\<lparr>stderr := stderr w @ [s]\<rparr>"

subsection \<open>The conversion dispatcher\<close>

text \<open>\<^verbatim>\<open>print_text\<close>, lines 75-87.\<close>

fun print_text :: "env \<Rightarrow> string list \<Rightarrow> unit io" where
  "print_text env [] w = (Inr (), w)"
| "print_text env (infilename # rest) w =
     (case get_parsed_text env infilename of
        Inl e \<Rightarrow> (Inl e, w)
      | Inr parsed_text \<Rightarrow>
          (if parsed_text \<noteq> []
           then print_text env rest (print_line [] (foldl (\<lambda>v line. print_line line v) w parsed_text))
           else print_text env rest w))"

text \<open>\<^verbatim>\<open>write_to_text\<close>, lines 90-107.\<close>

definition write_to_text :: "env \<Rightarrow> args \<Rightarrow> string list \<Rightarrow> string \<Rightarrow> unit io" where
  "write_to_text env a infilenames outfilename w =
     (let outfilename = (if \<not> endswith outfilename ''.txt''
                         then outfilename @ ''.txt'' else outfilename)
      in case write_text_file env infilenames outfilename w of
           (Inl e, w') \<Rightarrow>
             (if caught e
              then (Inl e, if arg_urls a \<noteq> [] then remove_part_files w' else w')
              else (Inl e, w'))
         | (Inr u, w') \<Rightarrow> (Inr u, w'))"

text \<open>\<^verbatim>\<open>write_to_pdf\<close>, lines 110-127.\<close>

definition write_to_pdf :: "env \<Rightarrow> args \<Rightarrow> string list \<Rightarrow> string \<Rightarrow> unit io" where
  "write_to_pdf env a infilenames outfilename w =
     (let outfilename = (if \<not> endswith outfilename ''.pdf''
                         then outfilename @ ''.pdf'' else outfilename)
      in case write_pdf_file env infilenames outfilename w of
           (Inl e, w') \<Rightarrow>
             (if caught e
              then (Inl e, if arg_urls a \<noteq> [] then remove_part_files w' else w')
              else (Inl e, w'))
         | (Inr u, w') \<Rightarrow> (Inr u, w'))"

text \<open>\<^verbatim>\<open>write_files\<close>, lines 130-147.\<close>

definition write_files :: "env \<Rightarrow> args \<Rightarrow> string list \<Rightarrow> string \<Rightarrow> unit io" where
  "write_files env a infilenames outfilename w =
     (case (if arg_print a then print_text env infilenames w
            else if arg_pdf a then write_to_pdf env a infilenames outfilename w
            else if arg_text a then write_to_text env a infilenames outfilename w
            else (Inr (), w)) of
        (Inl e, w') \<Rightarrow> (Inl e, w')
      | (Inr u, w') \<Rightarrow>
          (Inr (), if arg_urls a \<noteq> [] \<and> \<not> arg_html a then remove_part_files w' else w'))"

subsection \<open>Output names and the two output modes\<close>

text \<open>
  \<^verbatim>\<open>get_single_outfilename\<close>, lines 150-160. The loop returns at the first query item
  that is a known file or occurs in a known URL; \<open>None\<close> is falling out of the loop.
\<close>

fun first_outfilename :: "env \<Rightarrow> args \<Rightarrow> string list \<Rightarrow> string option" where
  "first_outfilename env a [] = None"
| "first_outfilename env a (arg # rest) =
     (if arg \<in> set (arg_files a) then Some (lower env (strip_ext arg))
      else (case find (\<lambda>url. substring (strip_chr CHR ''/'' arg) url) (arg_urls a) of
              Some url \<Rightarrow> Some (get_outfilename env url (get_domain env url))
            | None \<Rightarrow> first_outfilename env a rest))"

definition get_single_outfilename :: "env \<Rightarrow> args \<Rightarrow> world \<Rightarrow> string \<times> world" where
  "get_single_outfilename env a w =
     (case first_outfilename env a (arg_query a) of
        Some name \<Rightarrow> (name, w)
      | None \<Rightarrow> ([], stderr_write ''Failed to construct a single out filename.'' w))"

text \<open>
  How one iteration of a \<^verbatim>\<open>for\<close> loop ends: it goes on to the next item with the
  loop's variables, or the function returns from inside the loop, or an exception
  leaves it.
\<close>

datatype ('s, 'r) flow = Continue 's | Return 'r | Raise exn

text \<open>
  The fetch of one page, lines 180-188 and 233-242: the response is written as one new
  part file, whose name is returned; no response gives \<open>None\<close>.
\<close>

definition fetch_page :: "env \<Rightarrow> string \<Rightarrow> world \<Rightarrow> string list option \<times> world" where
  "fetch_page env query w =
     (case get_raw_resp env query of
        Some raw_resp \<Rightarrow>
          (let prev_part_num = get_num_part_files w;
               w' = write_part_file w;
               curr_part_num = prev_part_num + 1
           in (Some (get_part_filenames curr_part_num prev_part_num), w'))
      | None \<Rightarrow> (None, w))"

text \<open>The body of the loop of \<^verbatim>\<open>write_single_file\<close>, lines 174-190.\<close>

definition single_step ::
  "env \<Rightarrow> args \<Rightarrow> string \<Rightarrow> string \<Rightarrow> string list \<Rightarrow> world \<Rightarrow> (string list, bool) flow \<times> world" where
  "single_step env a domain query infilenames w =
     (if strip_chr CHR ''/'' query \<in> set (arg_urls a) then
        (if crawl_requested a then
           (case crawl env query domain w of
              (Inl e, w') \<Rightarrow> (Raise e, w')
            | (Inr names, w') \<Rightarrow> (Continue (infilenames @ names), w'))
         else
           (case fetch_page env query w of
              (Some names, w') \<Rightarrow> (Continue (infilenames @ names), w')
            | (None, w') \<Rightarrow> (Return False, w')))
      else if query \<in> set (arg_files a) then (Continue (infilenames @ [query]), w)
      else (Continue infilenames, w))"

fun single_loop ::
  "env \<Rightarrow> args \<Rightarrow> string \<Rightarrow> string list \<Rightarrow> string list \<Rightarrow> world \<Rightarrow> (string list, bool) flow \<times> world" where
  "single_loop env a domain [] infilenames w = (Continue infilenames, w)"
| "single_loop env a domain (query # rest) infilenames w =
     (case single_step env a domain query infilenames w of
        (Continue infilenames', w') \<Rightarrow> single_loop env a domain rest infilenames' w'
      | (Return r, w') \<Rightarrow> (Return r, w')
      | (Raise e, w') \<Rightarrow> (Raise e, w'))"

text \<open>
  \<^verbatim>\<open>write_single_file\<close>, lines 163-206. The variable \<^verbatim>\<open>domain\<close> is bound only when
  there are URLs, and it is read only for a query item that is one of them.
\<close>

definition write_single_file :: "env \<Rightarrow> args \<Rightarrow> string \<Rightarrow> bool io" where
  "write_single_file env a base_dir w =
     (let (domain, w1) =
            (case arg_urls a of
               [] \<Rightarrow> ([], w)
             | url # _ \<Rightarrow>
                 (let domain = get_domain env url
                  in if arg_html a
                     then (domain,
                           mkdir_and_cd domain
                             (if \<not> arg_quiet a
                              then print_line (''Storing html files in '' @ domain @ ''/'') w
                              else w))
                     else (domain, w)))
      in case single_loop env a domain (arg_query a) [] w1 of
           (Raise e, w2) \<Rightarrow> (Inl e, w2)
         | (Return r, w2) \<Rightarrow> (Inr r, w2)
         | (Continue infilenames, w2) \<Rightarrow>
             (if arg_html a then
                (case chdir env base_dir w2 of
                   (Inl e, w3) \<Rightarrow> (Inl e, w3)
                 | (Inr u, w3) \<Rightarrow> (Inr True, w3))
              else if infilenames \<noteq> [] then
                (let (outfilename, w3) =
                       (if out_names a \<noteq> [] then (hd (out_names a), w2)
                        else get_single_outfilename env a w2)
                 in if outfilename \<noteq> [] then
                      (case write_files env a infilenames outfilename w3 of
                         (Inl e, w4) \<Rightarrow> (Inl e, w4)
                       | (Inr u, w4) \<Rightarrow> (Inr True, w4))
                    else (Inr True, w3))
              else (Inr True, remove_part_files w2)))"

text \<open>
  The body of the loop of \<^verbatim>\<open>write_multiple_files\<close>, lines 211-257, for the query item
  \<open>query\<close> at position \<open>i\<close>.
\<close>

definition multiple_step ::
  "env \<Rightarrow> args \<Rightarrow> string \<Rightarrow> nat \<Rightarrow> string \<Rightarrow> world \<Rightarrow> (unit, bool) flow \<times> world" where
  "multiple_step env a base_dir i query w =
     (if query \<in> set (arg_files a) then
        (let outfilename = (if out_names a \<noteq> [] \<and> i < length (out_names a)
                            then out_names a ! i else strip_ext query)
         in case write_files env a [query] outfilename w of
              (Inl e, w') \<Rightarrow> (Raise e, w')
            | (Inr u, w') \<Rightarrow> (Continue (), w'))
      else if query \<in> set (arg_urls a) then
        (let domain = get_domain env query;
             w1 = (if arg_html a
                   then mkdir_and_cd domain
                          (if \<not> arg_quiet a
                           then print_line (''Storing html files in '' @ domain @ ''/'') w
                           else w)
                   else w)
         in case (if crawl_requested a then
                    (case crawl env query domain w1 of
                       (Inl e, w2) \<Rightarrow> (Raise e, w2)
                     | (Inr names, w2) \<Rightarrow> (Continue names, w2))
                  else
                    (case fetch_page env query w1 of
                       (Some names, w2) \<Rightarrow> (Continue names, w2)
                     | (None, w2) \<Rightarrow> (Return False, w2))) of
              (Raise e, w2) \<Rightarrow> (Raise e, w2)
            | (Return r, w2) \<Rightarrow> (Return r, w2)
            | (Continue infilenames, w2) \<Rightarrow>
                (if arg_html a then
                   (case chdir env base_dir w2 of
                      (Inl e, w3) \<Rightarrow> (Raise e, w3)
                    | (Inr u, w3) \<Rightarrow> (Continue (), w3))
                 else if infilenames \<noteq> [] then
                   (let outfilename = (if out_names a \<noteq> [] \<and> i < length (out_names a)
                                       then out_names a ! i
                                       else get_outfilename env query domain)
                    in case write_files env a infilenames outfilename w2 of
                         (Inl e, w3) \<Rightarrow> (Raise e, w3)
                       | (Inr u, w3) \<Rightarrow> (Continue (), w3))
                 else (Continue (),
                       stderr_write (''Failed to retrieve content from '' @ query @ ''.'') w2)))
      else (Continue (), w))"

fun multiple_loop :: "env \<Rightarrow> args \<Rightarrow> string \<Rightarrow> nat \<Rightarrow> string list \<Rightarrow> bool io" where
  "multiple_loop env a base_dir i [] w = (Inr True, w)"
| "multiple_loop env a base_dir i (query # rest) w =
     (case multiple_step env a base_dir i query w of
        (Continue u, w') \<Rightarrow> multiple_loop env a base_dir (Suc i) rest w'
      | (Return r, w') \<Rightarrow> (Inr r, w')
      | (Raise e, w') \<Rightarrow> (Inl e, w'))"

text \<open>\<^verbatim>\<open>write_multiple_files\<close>, lines 209-258.\<close>

definition write_multiple_files :: "env \<Rightarrow> args \<Rightarrow> string \<Rightarrow> bool io" where
  "write_multiple_files env a base_dir w = multiple_loop env a base_dir 0 (arg_query a) w"

subsection \<open>The planner: \<^verbatim>\<open>scrape\<close>\<close>

text \<open>Lines 266-267.\<close>

definition default_out :: "args \<Rightarrow> args" where
  "default_out a = (if arg_out a = None then a\<lparr>arg_out := Some []\<rparr> else a)"

text \<open>Lines 269-275: single or multiple files.\<close>

definition detect_mode :: "args \<Rightarrow> args" where
  "detect_mode a =
     (if \<not> arg_single a \<and> \<not> arg_multiple a then
        (if length (arg_query a) > 1 \<or> length (out_names a) > 1
         then a\<lparr>arg_multiple := True\<rparr>
         else a\<lparr>arg_single := True\<rparr>)
      else a)"

text \<open>Lines 277-284: the query is split into local files and URLs.\<close>

fun split_query :: "env \<Rightarrow> string list \<Rightarrow> string list \<Rightarrow> string list \<Rightarrow> string list \<times> string list" where
  "split_query env [] files urls = (files, urls)"
| "split_query env (arg # rest) files urls =
     (if isfile env arg then split_query env rest (files @ [arg]) urls
      else split_query env rest files (urls @ [strip_chr CHR ''/'' arg]))"

definition classify :: "env \<Rightarrow> args \<Rightarrow> args" where
  "classify env a =
     (let (files, urls) = split_query env (arg_query a) [] []
      in a\<lparr>arg_files := files, arg_urls := urls\<rparr>)"

text \<open>Lines 286-292: extensions and schemes are added, query and URLs are rewritten.\<close>

definition normalize_urls :: "env \<Rightarrow> args \<Rightarrow> args" where
  "normalize_urls env a =
     (if arg_urls a \<noteq> [] then
        (let urls_with_exts = map (add_url_ext env) (arg_urls a);
             query = map (\<lambda>x. if x \<in> set (arg_urls a) \<and> \<not> check_scheme env x
                               then add_scheme env x else x) urls_with_exts;
             urls = filter (\<lambda>x. x \<notin> set (arg_files a)) query
         in a\<lparr>arg_query := query, arg_urls := urls\<rparr>)
      else a)"

text \<open>Lines 294-297: local files cannot become HTML.\<close>

definition reject_local_html :: "args \<Rightarrow> world \<Rightarrow> args \<times> world" where
  "reject_local_html a w =
     (if arg_files a \<noteq> [] \<and> arg_html a
      then (a\<lparr>arg_files := []\<rparr>, stderr_write ''Cannot convert local files to HTML.'' w)
      else (a, w))"

text \<open>The arguments as they are when the mode is dispatched (lines 266-297).\<close>

definition plan :: "env \<Rightarrow> args \<Rightarrow> world \<Rightarrow> args \<times> world" where
  "plan env a w = reject_local_html (normalize_urls env (classify env (detect_mode (default_out a)))) w"

text \<open>Which writer lines 299-302 call: \<^verbatim>\<open>if args['single'] ... elif args['multiple']\<close>.\<close>

datatype mode = SingleFile | MultipleFiles | NoMode

definition mode_of :: "args \<Rightarrow> mode" where
  "mode_of a = (if arg_single a then SingleFile else if arg_multiple a then MultipleFiles else NoMode)"

text \<open>
  The body of the \<^verbatim>\<open>try\<close> of \<^verbatim>\<open>scrape\<close>, lines 264-302. The function returns what the
  writer returns (\<open>returned\<close>), and \<^verbatim>\<open>None\<close> when neither flag is set.
\<close>

definition returned :: "(exn + bool) \<times> world \<Rightarrow> (exn + bool option) \<times> world" where
  "returned r = (case r of (Inl e, w) \<Rightarrow> (Inl e, w) | (Inr b, w) \<Rightarrow> (Inr (Some b), w))"

definition scrape_body :: "env \<Rightarrow> args \<Rightarrow> bool option io" where
  "scrape_body env a w =
     (let base_dir = getcwd w;
          (a', w') = plan env a w
      in case mode_of a' of
           SingleFile \<Rightarrow> returned (write_single_file env a' base_dir w')
         | MultipleFiles \<Rightarrow> returned (write_multiple_files env a' base_dir w')
         | NoMode \<Rightarrow> (Inr None, w'))"

text \<open>
  The handler of \<^verbatim>\<open>scrape\<close>, lines 303-311, applied to the outcome of the body. An
  exception that the \<^verbatim>\<open>except\<close> clause does not match passes through. For one that
  it matches, in HTML mode the handler goes back to the base directory and swallows an
  \<^verbatim>\<open>OSError\<close> of that step; otherwise it removes the part files; then the exception
  is raised again.
\<close>

definition recover :: "env \<Rightarrow> args \<Rightarrow> string \<Rightarrow> (exn + 'a) \<times> world \<Rightarrow> (exn + 'a) \<times> world" where
  "recover env a base_dir r =
     (case r of
        (Inr v, w') \<Rightarrow> (Inr v, w')
      | (Inl e, w') \<Rightarrow>
          (if \<not> caught e then (Inl e, w')
           else if arg_html a then
             (case chdir env base_dir w' of
                (Inr u, w'') \<Rightarrow> (Inl e, w'')
              | (Inl OSError, w'') \<Rightarrow> (Inl e, w'')
              | (Inl e', w'') \<Rightarrow> (Inl e', w''))
           else (Inl e, remove_part_files w')))"

text \<open>\<^verbatim>\<open>scrape\<close>, lines 261-311: the body under its handler.\<close>

definition scrape :: "env \<Rightarrow> args \<Rightarrow> bool option io" where
  "scrape env a w = recover env a (getcwd w) (scrape_body env a w)"

subsection \<open>Concrete runs\<close>

text \<open>
  A small site for evaluating runs: two local files exist, one page can be fetched,
  every other fetch returns nothing, the writers succeed, all names are ASCII.
\<close>

text \<open>The lower case of an ASCII letter; any other character is kept.\<close>

definition ascii_lower_chr :: "char \<Rightarrow> char" where
  "ascii_lower_chr c =
     (case map_of (zip ''ABCDEFGHIJKLMNOPQRSTUVWXYZ'' ''abcdefghijklmnopqrstuvwxyz'') c of
        None \<Rightarrow> c
      | Some d \<Rightarrow> d)"

definition site_env :: env where
  "site_env = \<lparr>
     isfile = (\<lambda>p. p = ''notes.html'' \<or> p = ''README''),
     chdir_fails = (\<lambda>p. False),
     add_url_ext = (\<lambda>u. u),
     add_scheme = (\<lambda>u. ''http://'' @ u),
     check_scheme = (\<lambda>u. take 7 u = ''http://''),
     get_domain = (\<lambda>u. ''example.com''),
     get_outfilename = (\<lambda>u d. ''page''),
     get_raw_resp = (\<lambda>u. if u = ''http://example.com/a.html''
                          then Some ''<html></html>'' else None),
     get_parsed_text = (\<lambda>f. Inr [''text'']),
     str_lower = map ascii_lower_chr,
     crawl_pages = (\<lambda>u d. (0, None)),
     text_writer_error = (\<lambda>fs n. None),
     pdf_writer_error = (\<lambda>fs n. None)\<rparr>"

text \<open>The same site with writers that fail.\<close>

definition broken_writers_env :: env where
  "broken_writers_env = site_env\<lparr>
     text_writer_error := (\<lambda>fs n. Some KeyboardInterrupt),
     pdf_writer_error := (\<lambda>fs n. Some (Exception ''wkhtmltopdf''))\<rparr>"

text \<open>The same site with writers that end the interpreter.\<close>

definition exiting_writers_env :: env where
  "exiting_writers_env = site_env\<lparr>
     text_writer_error := (\<lambda>fs n. Some (BaseException ''SystemExit'')),
     pdf_writer_error := (\<lambda>fs n. Some (BaseException ''SystemExit''))\<rparr>"

definition start_world :: world where
  "start_world = \<lparr>cwd = ''/base'', part_files = (\<lambda>d. 0), stdout = [], stderr = [], written = []\<rparr>"

text \<open>The arguments of \<^verbatim>\<open>scrape QUERY... --text\<close>.\<close>

definition text_args :: "string list \<Rightarrow> args" where
  "text_args q = \<lparr>arg_query = q, arg_out = None, arg_files = [], arg_urls = [],
     arg_single = False, arg_multiple = False, arg_html = False, arg_pdf = False,
     arg_text = True, arg_print = False, arg_quiet = False, arg_crawl = None,
     arg_crawl_all = False\<rparr>"

text \<open>The arguments of \<^verbatim>\<open>scrape QUERY... --html\<close>.\<close>

definition html_args :: "string list \<Rightarrow> args" where
  "html_args q = (text_args q)\<lparr>arg_text := False, arg_html := True\<rparr>"

section \<open>Properties\<close>

subsection \<open>Auxiliary facts\<close>

lemma endswith_append: "endswith (s @ suf) suf"
  by (simp add: endswith_def)

lemma reject_local_html_flags:
  "arg_single (fst (reject_local_html a w)) = arg_single a"
  "arg_multiple (fst (reject_local_html a w)) = arg_multiple a"
  "arg_html (fst (reject_local_html a w)) = arg_html a"
  by (simp_all add: reject_local_html_def)

lemma normalize_urls_flags:
  "arg_single (normalize_urls env a) = arg_single a"
  "arg_multiple (normalize_urls env a) = arg_multiple a"
  "arg_html (normalize_urls env a) = arg_html a"
  by (simp_all add: normalize_urls_def Let_def)

lemma classify_flags:
  "arg_single (classify env a) = arg_single a"
  "arg_multiple (classify env a) = arg_multiple a"
  "arg_html (classify env a) = arg_html a"
  by (simp_all add: classify_def split_def Let_def)

lemma plan_flags:
  "arg_single (fst (plan env a w)) = arg_single (detect_mode (default_out a))"
  "arg_multiple (fst (plan env a w)) = arg_multiple (detect_mode (default_out a))"
  by (simp_all add: plan_def reject_local_html_flags normalize_urls_flags classify_flags)

lemma mode_of_plan: "mode_of (fst (plan env a w)) = mode_of (detect_mode (default_out a))"
  by (simp add: mode_of_def plan_flags)

lemma out_names_default: "out_names (default_out a) = out_names a"
  by (simp add: out_names_def default_out_def)

lemma mode_detect: "mode_of (detect_mode (default_out a)) =
  (if arg_single a then SingleFile else if arg_multiple a then MultipleFiles
   else if 1 < length (arg_query a) \<or> 1 < length (out_names a) then MultipleFiles else SingleFile)"
  using out_names_default[of a]
  by (auto simp add: mode_of_def detect_mode_def default_out_def)

lemma scrape_body_dispatch:
  "scrape_body env a w =
     (case mode_of (fst (plan env a w)) of
        SingleFile \<Rightarrow> returned (write_single_file env (fst (plan env a w)) (getcwd w) (snd (plan env a w)))
      | MultipleFiles \<Rightarrow> returned (write_multiple_files env (fst (plan env a w)) (getcwd w) (snd (plan env a w)))
      | NoMode \<Rightarrow> (Inr None, snd (plan env a w)))"
  by (simp add: scrape_body_def Let_def split_def)

subsection \<open>What the handler, the dispatcher and the rewriting of the query do\<close>

text \<open>
  For an exception that its \<^verbatim>\<open>except\<close> clause matches, the handler of \<^verbatim>\<open>scrape\<close>
  removes the part files outside HTML mode and goes back to the base directory in HTML
  mode, where a failing \<^verbatim>\<open>os.chdir\<close> is swallowed; any other exception and any value
  that is returned pass through it untouched. \<open>write_files\<close> leaves no part
  file when it returns for inputs from URLs outside HTML mode. The rewritten query is
  built from the URLs alone as soon as there is one.
\<close>

lemma caught_iff:
  "caught e \<longleftrightarrow> e = KeyboardInterrupt \<or> e = OSError \<or> (\<exists>name. e = Exception name)"
  by (cases e) simp_all

lemma recover_not_html:
  "caught e \<Longrightarrow> \<not> arg_html a
     \<Longrightarrow> recover env a base_dir (Inl e, w) = (Inl e, remove_part_files w)"
  by (simp add: recover_def)

lemma recover_html:
  "caught e \<Longrightarrow> arg_html a \<Longrightarrow>
     recover env a base_dir (Inl e, w) = (Inl e, if chdir_fails env base_dir then w else w\<lparr>cwd := base_dir\<rparr>)"
  by (simp add: recover_def chdir_def)

lemma recover_not_caught:
  "\<not> caught e \<Longrightarrow> recover env a base_dir (Inl e, w) = (Inl e, w)"
  by (simp add: recover_def)

lemma recover_returns: "recover env a base_dir (Inr v, w) = (Inr v, w)"
  by (simp add: recover_def)

lemma write_files_removes_part_files:
  assumes "write_files env a infilenames outfilename w = (Inr u, w')"
    and "arg_urls a \<noteq> []" and "\<not> arg_html a"
  shows "get_num_part_files w' = 0"
  using assms
  by (auto simp add: write_files_def get_num_part_files_def remove_part_files_def
        split: prod.splits sum.splits)

lemma normalize_urls_query:
  "arg_urls a \<noteq> [] \<Longrightarrow>
     arg_query (normalize_urls env a) =
       map (\<lambda>x. if x \<in> set (arg_urls a) \<and> \<not> check_scheme env x then add_scheme env x else x)
         (map (add_url_ext env) (arg_urls a))"
  by (simp add: normalize_urls_def Let_def)

subsection \<open>Claim C3: the mode decision\<close>

text \<open>
  Claim C3. When neither the single nor the multiple flag is set, the planner selects
  multiple-file mode if and only if the query has more than one item or more than one
  output name was given, and single-file mode otherwise; a mode that was requested alone
  is honoured. The run is the selected writer under the handler of \<^verbatim>\<open>scrape\<close>.
\<close>

theorem mode_decision:
  "(\<not> arg_single a \<and> \<not> arg_multiple a \<longrightarrow>
      (mode_of (fst (plan env a w)) = MultipleFiles
         \<longleftrightarrow> 1 < length (arg_query a) \<or> 1 < length (out_names a)) \<and>
      (mode_of (fst (plan env a w)) = SingleFile
         \<longleftrightarrow> \<not> (1 < length (arg_query a) \<or> 1 < length (out_names a))))
   \<and> (arg_single a \<and> \<not> arg_multiple a \<longrightarrow> mode_of (fst (plan env a w)) = SingleFile)
   \<and> (arg_multiple a \<and> \<not> arg_single a \<longrightarrow> mode_of (fst (plan env a w)) = MultipleFiles)
   \<and> scrape env a w = recover env a (getcwd w)
        (case mode_of (fst (plan env a w)) of
           SingleFile \<Rightarrow>
             returned (write_single_file env (fst (plan env a w)) (getcwd w) (snd (plan env a w)))
         | MultipleFiles \<Rightarrow>
             returned (write_multiple_files env (fst (plan env a w)) (getcwd w) (snd (plan env a w)))
         | NoMode \<Rightarrow> (Inr None, snd (plan env a w)))"
  by (simp add: mode_of_plan mode_detect scrape_def scrape_body_dispatch)

theorem mode_decision_witness:
  "\<not> arg_single (text_args [''a.com'', ''b.com'']) \<and> \<not> arg_multiple (text_args [''a.com'', ''b.com''])
   \<and> 1 < length (arg_query (text_args [''a.com'', ''b.com'']))
   \<and> mode_of (fst (plan site_env (text_args [''a.com'', ''b.com'']) start_world)) = MultipleFiles
   \<and> \<not> arg_single (text_args [''README'']) \<and> \<not> arg_multiple (text_args [''README''])
   \<and> mode_of (fst (plan site_env (text_args [''README'']) start_world)) = SingleFile
   \<and> arg_multiple ((text_args [''README''])\<lparr>arg_multiple := True\<rparr>)
   \<and> mode_of (fst (plan site_env ((text_args [''README''])\<lparr>arg_multiple := True\<rparr>) start_world)) = MultipleFiles"
  using mode_decision [of "text_args [''a.com'', ''b.com'']" site_env start_world]
        mode_decision [of "text_args [''README'']" site_env start_world]
        mode_decision [of "(text_args [''README''])\<lparr>arg_multiple := True\<rparr>" site_env start_world]
  by (simp add: text_args_def out_names_def)

subsection \<open>Claim C9: both flags set\<close>

text \<open>
  Claim C9. When both the single and the multiple flag are set, single-file mode takes
  precedence: the run calls \<open>write_single_file\<close> and never \<open>write_multiple_files\<close>.
\<close>

theorem both_flags_single:
  assumes "arg_single a" and "arg_multiple a"
  shows "mode_of (fst (plan env a w)) = SingleFile
     \<and> scrape_body env a w =
         returned (write_single_file env (fst (plan env a w)) (getcwd w) (snd (plan env a w)))
     \<and> scrape env a w = recover env a (getcwd w)
         (returned (write_single_file env (fst (plan env a w)) (getcwd w) (snd (plan env a w))))"
  using assms by (simp add: mode_of_plan mode_detect scrape_def scrape_body_dispatch)

theorem both_flags_single_witness:
  "arg_single ((text_args [''a.com'', ''b.com''])\<lparr>arg_single := True, arg_multiple := True\<rparr>)
   \<and> arg_multiple ((text_args [''a.com'', ''b.com''])\<lparr>arg_single := True, arg_multiple := True\<rparr>)
   \<and> mode_of (fst (plan site_env
         ((text_args [''a.com'', ''b.com''])\<lparr>arg_single := True, arg_multiple := True\<rparr>) start_world))
       = SingleFile"
proof -
  let ?a = "(text_args [''a.com'', ''b.com''])\<lparr>arg_single := True, arg_multiple := True\<rparr>"
  have s: "arg_single ?a" and m: "arg_multiple ?a" by simp_all
  from both_flags_single [OF s m, of site_env start_world] s m show ?thesis by blast
qed

subsection \<open>Claim C4: a failing writer\<close>

text \<open>
  Claim C4 as stated fails for an exception that \<^verbatim>\<open>except (KeyboardInterrupt, Exception)\<close>
  does not match. Below the text writer raises \<^verbatim>\<open>SystemExit\<close> while the URL list is not
  empty: the exception goes through line 104 and the part file stays.
\<close>

theorem writer_system_exit_counterexample:
  "arg_urls ((text_args [''http://example.com/a.html''])\<lparr>arg_urls := [''http://example.com/a.html'']\<rparr>)
     \<noteq> []
   \<and> get_num_part_files (write_part_file start_world) = 1
   \<and> fst (write_to_text exiting_writers_env
          ((text_args [''http://example.com/a.html''])\<lparr>arg_urls := [''http://example.com/a.html'']\<rparr>)
          [''PART1.html''] ''page'' (write_part_file start_world)) = Inl (BaseException ''SystemExit'')
   \<and> get_num_part_files (snd (write_to_text exiting_writers_env
          ((text_args [''http://example.com/a.html''])\<lparr>arg_urls := [''http://example.com/a.html'']\<rparr>)
          [''PART1.html''] ''page'' (write_part_file start_world))) = 1"
  by code_simp

text \<open>
  Claim C4, amended. When the external text or PDF writer raises an exception,
  \<open>write_to_text\<close> and \<open>write_to_pdf\<close> raise that same exception again and never
  suppress it. When the exception is a keyboard interrupt or an instance of
  \<^verbatim>\<open>Exception\<close>, they first remove all part files if and only if the URL list is not
  empty, and after the removal the working directory holds no part file; any other
  exception passes through without removal.
\<close>

theorem writer_failure_cleanup:
  "(write_text_file env infilenames
        (if \<not> endswith outfilename ''.txt'' then outfilename @ ''.txt'' else outfilename) w = (Inl e, w')
      \<longrightarrow> write_to_text env a infilenames outfilename w
            = (Inl e, if caught e \<and> arg_urls a \<noteq> [] then remove_part_files w' else w'))
   \<and> (write_pdf_file env infilenames
        (if \<not> endswith outfilename ''.pdf'' then outfilename @ ''.pdf'' else outfilename) w = (Inl e, w')
      \<longrightarrow> write_to_pdf env a infilenames outfilename w
            = (Inl e, if caught e \<and> arg_urls a \<noteq> [] then remove_part_files w' else w'))
   \<and> get_num_part_files (remove_part_files w') = 0
   \<and> (caught e \<longleftrightarrow> e = KeyboardInterrupt \<or> e = OSError \<or> (\<exists>name. e = Exception name))"
proof -
  have "get_num_part_files (remove_part_files w') = 0"
    by (simp add: get_num_part_files_def remove_part_files_def)
  then show ?thesis
    by (simp add: write_to_text_def write_to_pdf_def caught_iff [symmetric])
qed

theorem writer_failure_cleanup_witness:
  "fst (write_to_text broken_writers_env
          ((text_args [''http://example.com/a.html''])\<lparr>arg_urls := [''http://example.com/a.html'']\<rparr>)
          [''PART1.html''] ''page'' (write_part_file start_world)) = Inl KeyboardInterrupt
   \<and> get_num_part_files (write_part_file start_world) = 1
   \<and> get_num_part_files (snd (write_to_text broken_writers_env
          ((text_args [''http://example.com/a.html''])\<lparr>arg_urls := [''http://example.com/a.html'']\<rparr>)
          [''PART1.html''] ''page'' (write_part_file start_world))) = 0
   \<and> write_to_pdf broken_writers_env (text_args [''notes.html'']) [''notes.html''] ''notes''
          (write_part_file start_world)
       = (Inl (Exception ''wkhtmltopdf''), write_part_file start_world)"
proof -
  let ?a = "(text_args [''http://example.com/a.html''])\<lparr>arg_urls := [''http://example.com/a.html'']\<rparr>"
  let ?w = "write_part_file start_world"
  have t: "write_text_file broken_writers_env [''PART1.html'']
             (if \<not> endswith ''page'' ''.txt'' then ''page'' @ ''.txt'' else ''page'') ?w
           = (Inl KeyboardInterrupt, ?w)"
    by (simp add: write_text_file_def broken_writers_env_def)
  have p: "write_pdf_file broken_writers_env [''notes.html'']
             (if \<not> endswith ''notes'' ''.pdf'' then ''notes'' @ ''.pdf'' else ''notes'') ?w
           = (Inl (Exception ''wkhtmltopdf''), ?w)"
    by (simp add: write_pdf_file_def broken_writers_env_def)
  have n: "get_num_part_files ?w = 1"
    by (simp add: get_num_part_files_def write_part_file_def start_world_def)
  have u: "arg_urls ?a \<noteq> []" and v: "arg_urls (text_args [''notes.html'']) = []"
    by (simp_all add: text_args_def)
  from writer_failure_cleanup [of broken_writers_env "[''PART1.html'']" "''page''" ?w
         KeyboardInterrupt ?w ?a] t u
  have 1: "write_to_text broken_writers_env ?a [''PART1.html''] ''page'' ?w
            = (Inl KeyboardInterrupt, remove_part_files ?w)"
       and 2: "get_num_part_files (remove_part_files ?w) = 0"
    by simp_all
  from writer_failure_cleanup [of broken_writers_env "[''notes.html'']" "''notes''" ?w
         "Exception ''wkhtmltopdf''" ?w "text_args [''notes.html'']"] p v
  have 3: "write_to_pdf broken_writers_env (text_args [''notes.html'']) [''notes.html''] ''notes'' ?w
            = (Inl (Exception ''wkhtmltopdf''), ?w)"
    by simp
  from 1 2 3 n show ?thesis by simp
qed

subsection \<open>Claim C8: the canonical extension\<close>

text \<open>
  Claim C8. The name that \<open>write_to_text\<close> hands to the writer ends with \<^verbatim>\<open>.txt\<close>: the
  name itself when it already ends so, the name with \<^verbatim>\<open>.txt\<close> appended otherwise; an
  artifact that is written carries that name. \<open>write_to_pdf\<close> does the same with
  \<^verbatim>\<open>.pdf\<close>.
\<close>

theorem writers_canonical_extension:
  "(\<exists>used. endswith used ''.txt''
       \<and> used = (if endswith outfilename ''.txt'' then outfilename else outfilename @ ''.txt'')
       \<and> write_to_text env a infilenames outfilename w =
           (case write_text_file env infilenames used w of
              (Inl e, w') \<Rightarrow>
                (Inl e, if caught e \<and> arg_urls a \<noteq> [] then remove_part_files w' else w')
            | (Inr u, w') \<Rightarrow> (Inr u, w'))
       \<and> (fst (write_to_text env a infilenames outfilename w) = Inr ()
            \<longrightarrow> written (snd (write_to_text env a infilenames outfilename w))
                  = written w @ [(used, infilenames)]))
   \<and> (\<exists>used. endswith used ''.pdf''
       \<and> used = (if endswith outfilename ''.pdf'' then outfilename else outfilename @ ''.pdf'')
       \<and> write_to_pdf env a infilenames outfilename w =
           (case write_pdf_file env infilenames used w of
              (Inl e, w') \<Rightarrow>
                (Inl e, if caught e \<and> arg_urls a \<noteq> [] then remove_part_files w' else w')
            | (Inr u, w') \<Rightarrow> (Inr u, w'))
       \<and> (fst (write_to_pdf env a infilenames outfilename w) = Inr ()
            \<longrightarrow> written (snd (write_to_pdf env a infilenames outfilename w))
                  = written w @ [(used, infilenames)]))"
  by (auto simp add: write_to_text_def write_to_pdf_def write_text_file_def write_pdf_file_def
        endswith_append split: option.splits)


theorem writers_canonical_extension_witness:
  "fst (write_to_text site_env (text_args [''notes.html'']) [''notes.html''] ''notes'' start_world) = Inr ()
   \<and> written (snd (write_to_text site_env (text_args [''notes.html'']) [''notes.html''] ''notes''
        start_world)) = [(''notes.txt'', [''notes.html''])]
   \<and> fst (write_to_pdf site_env (text_args [''notes.html'']) [''notes.html''] ''notes.pdf'' start_world)
       = Inr ()
   \<and> written (snd (write_to_pdf site_env (text_args [''notes.html'']) [''notes.html''] ''notes.pdf''
        start_world)) = [(''notes.pdf'', [''notes.html''])]"
proof -
  have t: "fst (write_to_text site_env (text_args [''notes.html'']) [''notes.html''] ''notes''
             start_world) = Inr ()"
    by (simp add: write_to_text_def write_text_file_def site_env_def)
  have p: "fst (write_to_pdf site_env (text_args [''notes.html'']) [''notes.html''] ''notes.pdf''
             start_world) = Inr ()"
    by (simp add: write_to_pdf_def write_pdf_file_def site_env_def)
  have e: "\<not> endswith ''notes'' ''.txt''" "endswith ''notes.pdf'' ''.pdf''"
    by (simp_all add: endswith_def)
  have w: "written start_world = []" by (simp add: start_world_def)
  from writers_canonical_extension [of "''notes''" site_env "text_args [''notes.html'']"
         "[''notes.html'']" start_world] t e w
  have 1: "written (snd (write_to_text site_env (text_args [''notes.html'']) [''notes.html'']
             ''notes'' start_world)) = [(''notes.txt'', [''notes.html''])]"
    by auto
  from writers_canonical_extension [of "''notes.pdf''" site_env "text_args [''notes.html'']"
         "[''notes.html'']" start_world] p e w
  have 2: "written (snd (write_to_pdf site_env (text_args [''notes.html'']) [''notes.html'']
             ''notes.pdf'' start_world)) = [(''notes.pdf'', [''notes.html''])]"
    by auto
  from t p 1 2 show ?thesis by simp
qed

subsection \<open>Claim C1: part files after a run on URLs\<close>

text \<open>
  Claim C1 says that no part file remains after a run on URLs whose format is not HTML.
  The run below, in single-file mode on two URLs of which the second cannot be fetched,
  starts without part files, returns \<^verbatim>\<open>False\<close> at line 188 and leaves the part file of
  the first URL behind.
\<close>

theorem single_mode_fetch_failure_leaves_part_file:
  "get_num_part_files start_world = 0
   \<and> \<not> arg_html ((text_args [''example.com/a.html'', ''example.com/b.html''])\<lparr>arg_single := True\<rparr>)
   \<and> arg_urls (fst (plan site_env
        ((text_args [''example.com/a.html'', ''example.com/b.html''])\<lparr>arg_single := True\<rparr>)
        start_world)) = [''http://example.com/a.html'', ''http://example.com/b.html'']
   \<and> fst (scrape site_env
        ((text_args [''example.com/a.html'', ''example.com/b.html''])\<lparr>arg_single := True\<rparr>)
        start_world) = Inr (Some False)
   \<and> get_num_part_files (snd (scrape site_env
        ((text_args [''example.com/a.html'', ''example.com/b.html''])\<lparr>arg_single := True\<rparr>)
        start_world)) = 1"
  by code_simp

subsection \<open>Claim C2: a failed fetch in multiple-file mode\<close>

text \<open>
  Claim C2 says that in multiple-file mode a fetch without content is reported to
  standard error and the run goes on with the remaining targets. The run below, on a
  URL that cannot be fetched followed by one that can, returns \<^verbatim>\<open>False\<close> at line 242:
  nothing is written to standard error and the second target, which alone yields an
  artifact, is never processed.
\<close>

theorem multiple_mode_fetch_failure_stops_run:
  "arg_query (fst (plan site_env
        ((text_args [''example.com/b.html'', ''example.com/a.html''])\<lparr>arg_multiple := True\<rparr>)
        start_world)) = [''http://example.com/b.html'', ''http://example.com/a.html'']
   \<and> get_raw_resp site_env ''http://example.com/b.html'' = None
   \<and> get_raw_resp site_env ''http://example.com/a.html'' \<noteq> None
   \<and> fst (scrape site_env
        ((text_args [''example.com/b.html'', ''example.com/a.html''])\<lparr>arg_multiple := True\<rparr>)
        start_world) = Inr (Some False)
   \<and> stderr (snd (scrape site_env
        ((text_args [''example.com/b.html'', ''example.com/a.html''])\<lparr>arg_multiple := True\<rparr>)
        start_world)) = []
   \<and> written (snd (scrape site_env
        ((text_args [''example.com/b.html'', ''example.com/a.html''])\<lparr>arg_multiple := True\<rparr>)
        start_world)) = []
   \<and> written (snd (scrape site_env
        ((text_args [''example.com/a.html''])\<lparr>arg_multiple := True\<rparr>)
        start_world)) = [(''page.txt'', [''PART1.html''])]"
  by code_simp

subsection \<open>Claim C5: the working directory in HTML mode\<close>

text \<open>
  Claim C5 says that in HTML mode the working directory is the base directory again on
  every exit path. The runs below, in either mode on a URL that cannot be fetched, return
  \<^verbatim>\<open>False\<close> from inside the loop and stay in the subdirectory of the domain.
\<close>

theorem html_fetch_failure_stays_in_subdirectory:
  "getcwd start_world = ''/base''
   \<and> arg_html (html_args [''example.com/b.html''])
   \<and> fst (scrape site_env (html_args [''example.com/b.html'']) start_world) = Inr (Some False)
   \<and> getcwd (snd (scrape site_env (html_args [''example.com/b.html'']) start_world))
       = ''/base/example.com''
   \<and> fst (scrape site_env ((html_args [''example.com/b.html''])\<lparr>arg_multiple := True\<rparr>) start_world)
       = Inr (Some False)
   \<and> getcwd (snd (scrape site_env ((html_args [''example.com/b.html''])\<lparr>arg_multiple := True\<rparr>)
        start_world)) = ''/base/example.com''"
  by code_simp

subsection \<open>Claim C7: the rewritten query\<close>

text \<open>
  Claim C7 says that every query item classified as a local file is still present in
  the rewritten query. In the run below, on a local file and a URL, the rewritten query
  holds the completed URL only, and the local file is never converted.
\<close>

theorem mixed_query_loses_local_file:
  "isfile site_env ''notes.html''
   \<and> arg_files (fst (plan site_env (text_args [''notes.html'', ''example.com/a.html'']) start_world))
       = [''notes.html'']
   \<and> arg_query (fst (plan site_env (text_args [''notes.html'', ''example.com/a.html'']) start_world))
       = [''http://example.com/a.html'']
   \<and> written (snd (scrape site_env (text_args [''notes.html'', ''example.com/a.html'']) start_world))
       = [(''page.txt'', [''PART1.html''])]"
  by code_simp

subsection \<open>Claim C6: a fetch without content\<close>

text \<open>
  Claim C6 says that for a single-page fetch that returns no content the orchestrator
  writes a diagnostic to standard error and signals no output without raising. The run
  below, in single-file mode on one URL that cannot be fetched, returns \<^verbatim>\<open>False\<close> at
  line 188 without raising and without output, but nothing is written to standard
  error.
\<close>

theorem single_fetch_failure_writes_no_diagnostic:
  "get_raw_resp site_env ''http://example.com/b.html'' = None
   \<and> arg_query (fst (plan site_env (text_args [''example.com/b.html'']) start_world))
       = [''http://example.com/b.html'']
   \<and> mode_of (fst (plan site_env (text_args [''example.com/b.html'']) start_world)) = SingleFile
   \<and> stderr start_world = []
   \<and> fst (scrape site_env (text_args [''example.com/b.html'']) start_world) = Inr (Some False)
   \<and> stderr (snd (scrape site_env (text_args [''example.com/b.html'']) start_world)) = []
   \<and> written (snd (scrape site_env (text_args [''example.com/b.html'']) start_world)) = []"
  by code_simp

text \<open>
  The return of lines 188 and 242 for any query item: when the fetch returns nothing,
  the loop body returns \<^verbatim>\<open>False\<close> at once, and neither standard error nor the artifacts
  have changed. The runs of claims C1, C2, C5 and C6 go through it.
\<close>

lemma fetch_page_none: "get_raw_resp env q = None \<Longrightarrow> fetch_page env q w = (None, w)"
  by (simp add: fetch_page_def)

lemma single_step_no_content:
  assumes "get_raw_resp env q = None" and "\<not> crawl_requested a"
    and "strip_chr CHR ''/'' q \<in> set (arg_urls a)"
  shows "single_step env a domain q infilenames w = (Return False, w)"
  using assms by (simp add: single_step_def fetch_page_none)

lemma multiple_step_no_content:
  assumes "get_raw_resp env q = None" and "\<not> crawl_requested a"
    and "q \<notin> set (arg_files a)" and "q \<in> set (arg_urls a)"
  shows "\<exists>w1. multiple_step env a base_dir i q w = (Return False, w1)
           \<and> stderr w1 = stderr w \<and> written w1 = written w"
  using assms
  by (simp add: multiple_step_def fetch_page_none Let_def mkdir_and_cd_def print_line_def)

lemma write_single_file_no_content:
  assumes "get_raw_resp env q = None" and "\<not> crawl_requested a"
    and "strip_chr CHR ''/'' q \<in> set (arg_urls a)" and "arg_query a = q # rest"
  shows "\<exists>w1. write_single_file env a base_dir w = (Inr False, w1)
           \<and> stderr w1 = stderr w \<and> written w1 = written w"
proof (cases "arg_urls a")
  case Nil
  with assms(3) show ?thesis by simp
next
  case (Cons url urls)
  show ?thesis
    using assms(4) Cons
    by (simp add: write_single_file_def Let_def single_step_no_content [OF assms(1-3)]
          mkdir_and_cd_def print_line_def)
qed

subsection \<open>Claim C10: a local file without extension\<close>














end
